theory Spec2Isabelle
  imports Main "HOL-Library.List_Lexorder" "HOL-Library.Char_ord"
begin

section \<open>The timetable generator of \<^verbatim>\<open>timetable_generator_new.py\<close>\<close>

text \<open>
  The development follows the class \<^verbatim>\<open>TimeTableGenerator\<close>: the attributes of an instance
  are the fields of a record that every method takes and returns, a method that catches its
  exceptions and returns \<^verbatim>\<open>False\<close> returns \<open>False\<close> with the instance unchanged, Python
  dictionaries are maps (the dictionary of decision variables, whose order of insertion the
  result extraction follows, is the list of its keys), and the CP-SAT solver of OR-Tools, which
  is a library and no part of the file, is a parameter of \<open>create_model\<close>.

  Strings are lists of 8-bit characters read as code points, so that the letter e with an
  acute accent of the placeholder teacher's name is the character \<open>0xE9\<close>.
\<close>

subsection \<open>Input data\<close>

text \<open>
  What \<^verbatim>\<open>preprocess_data\<close> reads of a subject of \<^verbatim>\<open>subjects_data\<close>, a dictionary
  that \<^verbatim>\<open>load_data\<close> read from JSON: a field that the dictionary may lack is an option,
  and a field on whose JSON type the method depends has a case for every type.

  \<^item> The code is a string, or a value that \<^verbatim>\<open>not code\<close> takes for false
    (\<^verbatim>\<open>null\<close>, \<^verbatim>\<open>0\<close>, \<^verbatim>\<open>false\<close>, an empty list or object), or any other value: a
    number or \<^verbatim>\<open>true\<close>, on which \<^verbatim>\<open>len(code)\<close> raises, a list that is not empty,
    on which \<^verbatim>\<open>courses[code] = ...\<close> raises when nothing did before, or an object that is
    not empty, whose keys are strings, so that \<^verbatim>\<open>code[3]\<close> or \<^verbatim>\<open>code[-1]\<close> raises.
  \<^item> A teacher field is a string, a list, whose items are strings or something else, an
    object, which the comprehension iterates by its keys, or any other value
    (\<^verbatim>\<open>null\<close>, a number, a truth value), which cannot be iterated.
  \<^item> The level and the semester are only formatted into the name of the class, and the name
    and the credit only stored: the model holds them as the text and the number they are in
    the data files.
\<close>

datatype jitem = JStr string | JOther

datatype tfield = TStr string | TList "jitem list" | TObject "string list" | TOther

datatype cfield = CStr string | CFalsy | CTruthy

record subject =
  s_code :: "cfield option"
  s_niveau :: "string option"
  s_semestre :: "string option"
  s_name :: "string option"
  s_lecturer :: "tfield option"
  s_assistant :: "tfield option"
  s_credit :: "int option"

text \<open>
  What the comprehension over \<^verbatim>\<open>rooms_data.get('Informatique', [])\<close> meets. An entry is
  an object, with its \<^verbatim>\<open>num\<close> when it has one (a string in the data files; the method
  only copies it), or a value for which \<^verbatim>\<open>'num' in room\<close> is false (a string or a list
  without \<^verbatim>\<open>num\<close> in it), or a value on which the test or \<^verbatim>\<open>room['num']\<close> raises (a
  number, \<^verbatim>\<open>null\<close>, a truth value, a string or a list with \<^verbatim>\<open>num\<close> in it). The
  whole is an object whose \<^verbatim>\<open>Informatique\<close> is iterated as such entries (a list; the keys
  of an object; the characters of a string), an object without \<^verbatim>\<open>Informatique\<close>, as
  after \<^verbatim>\<open>__init__\<close>, or something on which \<^verbatim>\<open>get\<close> or the iteration raises.
\<close>

datatype room = RoomDict "string option" | RoomSkipped | RoomRaises

datatype rooms_json = Informatique "room list" | NoInformatique | NotRooms

subsection \<open>Preprocessed data, decision variables, model and timetable\<close>

record course_info =
  ci_name :: string
  lecturers :: "string list"
  assistants :: "string list"
  ci_credit :: int

record processed_data =
  classes :: "string list"
  courses :: "string \<rightharpoonup> course_info"
  teachers :: "string list"
  rooms :: "string list"
  curriculum :: "string \<rightharpoonup> string list"
  days :: "string list"
  periods :: "(string \<times> int) list"

text \<open>The key of a decision variable: (class, course, teacher, room, day, period).\<close>

type_synonym key = "string \<times> string \<times> string \<times> string \<times> string \<times> string"

fun k_class :: "key \<Rightarrow> string" where
  "k_class (c, co, t, r, d, p) = c"

fun k_course :: "key \<Rightarrow> string" where
  "k_course (c, co, t, r, d, p) = co"

fun k_teacher :: "key \<Rightarrow> string" where
  "k_teacher (c, co, t, r, d, p) = t"

fun k_room :: "key \<Rightarrow> string" where
  "k_room (c, co, t, r, d, p) = r"

fun k_day :: "key \<Rightarrow> string" where
  "k_day (c, co, t, r, d, p) = d"

fun k_period :: "key \<Rightarrow> string" where
  "k_period (c, co, t, r, d, p) = p"

text \<open>
  The part of a \<^verbatim>\<open>CpModel\<close> that the file builds: the constraints added with
  \<^verbatim>\<open>AddExactlyOne\<close> and \<^verbatim>\<open>AddAtMostOne\<close>, each over the variables of a list of keys, and
  the terms (coefficient, variable) of the sum given to \<^verbatim>\<open>Maximize\<close>.
\<close>

datatype constraint = ExactlyOne "key list" | AtMostOne "key list"

record cp_model =
  constraints :: "constraint list"
  objective :: "(int \<times> key) list"

text \<open>The statuses of CP-SAT, and what the file reads of the solver after \<^verbatim>\<open>Solve\<close>.\<close>

datatype status = UNKNOWN | MODEL_INVALID | FEASIBLE | INFEASIBLE | OPTIMAL

record response =
  r_status :: status
  r_value :: "key \<Rightarrow> bool"
  r_objective_value :: int

record entry =
  e_course :: string
  e_teacher :: string
  e_room :: string
  e_course_name :: string

type_synonym timetable = "string \<rightharpoonup> (string \<rightharpoonup> (string \<rightharpoonup> entry))"

record generator =
  rooms_data :: rooms_json
  subjects_data :: "subject list"
  processed :: "processed_data option"
  timetable :: timetable
  g_days :: "string list"
  g_periods :: "(string \<times> int) list"

text \<open>What \<^verbatim>\<open>create_model\<close> prints.\<close>

datatype msg =
  InsufficientData
  | CreatingModel
  | NoObjectiveVariable
  | Solving
  | SolutionFound status int
  | NoSolutionFound status

subsection \<open>\<^verbatim>\<open>__init__\<close>\<close>

definition default_days :: "string list" where
  "default_days = [''Lundi'', ''Mardi'', ''Mercredi'', ''Jeudi'', ''Vendredi'', ''Samedi'']"

definition default_periods :: "(string \<times> int) list" where
  "default_periods =
     [(''07:00-09:55'', 1), (''10:05-12:55'', 2), (''13:05-15:55'', 3),
      (''16:05-18:55'', 4), (''19:05-21:55'', 5)]"

definition init :: generator where
  "init = \<lparr>rooms_data = NoInformatique, subjects_data = [], processed = None, timetable = Map.empty,
     g_days = default_days, g_periods = default_periods\<rparr>"

subsection \<open>\<^verbatim>\<open>preprocess_data\<close>\<close>

text \<open>
  \<^verbatim>\<open>str.strip()\<close> removes the white space at both ends; \<open>py_space\<close> is
  \<^verbatim>\<open>str.isspace\<close> on the code points below 256.
\<close>

definition py_space :: "char \<Rightarrow> bool" where
  "py_space c = (let n = (of_char c :: nat) in
     (9 \<le> n \<and> n \<le> 13) \<or> (28 \<le> n \<and> n \<le> 32) \<or> n = 133 \<or> n = 160)"

definition strip :: "string \<Rightarrow> string" where
  "strip s = rev (dropWhile py_space (rev (dropWhile py_space s)))"

text \<open>
  \<^verbatim>\<open>int(code[-1])\<close> raises \<^verbatim>\<open>ValueError\<close> unless the last character is a decimal
  digit; below 256 these are \<^verbatim>\<open>0\<close> to \<^verbatim>\<open>9\<close>.
\<close>

definition py_digit :: "char \<Rightarrow> int option" where
  "py_digit c = (let n = (of_char c :: nat) in
     if 48 \<le> n \<and> n \<le> 57 then Some (int n - 48) else None)"

text \<open>
  A teacher field after \<^verbatim>\<open>subject.get(..., [])\<close> and the conversion of one string to a
  list of one, as the items that the comprehension iterates, \<open>None\<close> when it raises; then
  the filter
  \<^verbatim>\<open>[l.strip() for l in lecturers if l and isinstance(l, str) and l.strip()]\<close>.
\<close>

definition as_list :: "tfield option \<Rightarrow> jitem list option" where
  "as_list f =
     (case f of
        None \<Rightarrow> Some []
      | Some (TStr s) \<Rightarrow> Some [JStr s]
      | Some (TList xs) \<Rightarrow> Some xs
      | Some (TObject keys) \<Rightarrow> Some (map JStr keys)
      | Some TOther \<Rightarrow> None)"

fun valid_item :: "jitem \<Rightarrow> string list" where
  "valid_item (JStr l) = (if l \<noteq> [] \<and> strip l \<noteq> [] then [strip l] else [])"
| "valid_item JOther = []"

definition valid_names :: "tfield option \<Rightarrow> string list option" where
  "valid_names f = map_option (\<lambda>xs. concat (map valid_item xs)) (as_list f)"

text \<open>
  The state of the loop over the subjects: the sets \<^verbatim>\<open>classes\<close> and \<^verbatim>\<open>teachers\<close> and
  the dictionaries \<^verbatim>\<open>courses\<close> and \<^verbatim>\<open>curriculum\<close>.
\<close>

record acc =
  a_classes :: "string set"
  a_courses :: "string \<rightharpoonup> course_info"
  a_teachers :: "string set"
  a_curriculum :: "string \<rightharpoonup> string list"

text \<open>
  The name of the class of a code whose last character is the digit \<open>n\<close>. The defaults of
  the two \<^verbatim>\<open>get\<close> are computed before the lookups.
\<close>

definition class_name_of :: "subject \<Rightarrow> string \<Rightarrow> int \<Rightarrow> string" where
  "class_name_of subj code n =
     (let level_default = (if length code > 3 then [code ! 3] else ''1'');
          level = (case s_niveau subj of Some l \<Rightarrow> l | None \<Rightarrow> level_default);
          semester_default = (if n \<le> 5 then ''s1'' else ''s2'');
          semester = (case s_semestre subj of Some s \<Rightarrow> s | None \<Rightarrow> semester_default)
      in ''L'' @ level @ ''_'' @ semester)"

text \<open>What an iteration that does not raise does to the four variables.\<close>

definition add_course ::
  "acc \<Rightarrow> subject \<Rightarrow> string \<Rightarrow> string \<Rightarrow> string list \<Rightarrow> string list \<Rightarrow> acc" where
  "add_course a subj class_name code valid_lecturers valid_assistants =
     (let old = (case a_curriculum a class_name of None \<Rightarrow> [] | Some cs \<Rightarrow> cs)
      in \<lparr>a_classes = insert class_name (a_classes a),
          a_courses = (a_courses a)(code \<mapsto> \<lparr>
            ci_name = (case s_name subj of Some n \<Rightarrow> n | None \<Rightarrow> ''Sans nom''),
            lecturers = valid_lecturers,
            assistants = valid_assistants,
            ci_credit = (case s_credit subj of Some c \<Rightarrow> c | None \<Rightarrow> 0)\<rparr>),
          a_teachers = a_teachers a \<union> set valid_lecturers \<union> set valid_assistants,
          a_curriculum = (a_curriculum a)(class_name \<mapsto> old @ [code])\<rparr>)"

text \<open>
  One iteration; \<open>None\<close> is an exception, which leaves the loop. The default of
  \<^verbatim>\<open>subject.get('semestre', 's1' if int(code[-1]) <= 5 else 's2')\<close> is computed before
  the lookup, so a code that does not end with a digit raises even when the subject has a
  \<^verbatim>\<open>semestre\<close>. What the iteration did to the local variables before it raised is lost
  with them.
\<close>

definition step :: "acc \<Rightarrow> subject \<Rightarrow> acc option" where
  "step a subj =
     (case s_code subj of
        None \<Rightarrow> Some a
      | Some CFalsy \<Rightarrow> Some a
      | Some CTruthy \<Rightarrow> None
      | Some (CStr code) \<Rightarrow>
          if code = [] then Some a
          else
            (case py_digit (last code) of
               None \<Rightarrow> None
             | Some n \<Rightarrow>
                 (case valid_names (s_lecturer subj) of
                    None \<Rightarrow> None
                  | Some valid_lecturers \<Rightarrow>
                      (case valid_names (s_assistant subj) of
                         None \<Rightarrow> None
                       | Some valid_assistants \<Rightarrow>
                           Some (add_course a subj (class_name_of subj code n) code
                                   valid_lecturers valid_assistants)))))"

fun steps :: "acc \<Rightarrow> subject list \<Rightarrow> acc option" where
  "steps a [] = Some a"
| "steps a (subj # rest) = (case step a subj of None \<Rightarrow> None | Some a' \<Rightarrow> steps a' rest)"

definition acc0 :: acc where
  "acc0 = \<lparr>a_classes = {}, a_courses = Map.empty, a_teachers = {}, a_curriculum = Map.empty\<rparr>"

text \<open>
  \<^verbatim>\<open>[room['num'] for room in self.rooms_data.get('Informatique', []) if 'num' in room]\<close>,
  \<open>None\<close> when it raises.
\<close>

fun nums :: "room list \<Rightarrow> string list option" where
  "nums [] = Some []"
| "nums (RoomDict None # rs) = nums rs"
| "nums (RoomDict (Some n) # rs) = map_option ((#) n) (nums rs)"
| "nums (RoomSkipped # rs) = nums rs"
| "nums (RoomRaises # rs) = None"

fun room_nums :: "rooms_json \<Rightarrow> string list option" where
  "room_nums (Informatique rs) = nums rs"
| "room_nums NoInformatique = Some []"
| "room_nums NotRooms = None"

text \<open>The method: the rooms first, then the loop, all within \<^verbatim>\<open>try\<close>.\<close>

definition preprocess_data :: "generator \<Rightarrow> bool \<times> generator" where
  "preprocess_data g =
     (case room_nums (rooms_data g) of
        None \<Rightarrow> (False, g)
      | Some room_list \<Rightarrow>
          (case steps acc0 (subjects_data g) of
             None \<Rightarrow> (False, g)
           | Some a \<Rightarrow>
               (True, g\<lparr>processed := Some \<lparr>
                  classes = sorted_list_of_set (a_classes a),
                  courses = a_courses a,
                  teachers = sorted_list_of_set (a_teachers a),
                  rooms = room_list,
                  curriculum = a_curriculum a,
                  days = g_days g,
                  periods = g_periods g\<rparr>\<rparr>)))"

text \<open>
  A subject that the loop skips; a subject on which an iteration does not raise; and the
  names that a subject which is not skipped adds to the set of teachers.
\<close>

definition skipped :: "subject \<Rightarrow> bool" where
  "skipped subj =
     (case s_code subj of
        None \<Rightarrow> True
      | Some CFalsy \<Rightarrow> True
      | Some CTruthy \<Rightarrow> False
      | Some (CStr code) \<Rightarrow> code = [])"


definition subject_teachers :: "subject \<Rightarrow> string list" where
  "subject_teachers subj =
     (if skipped subj then []
      else (case valid_names (s_lecturer subj) of None \<Rightarrow> [] | Some names \<Rightarrow> names) @
           (case valid_names (s_assistant subj) of None \<Rightarrow> [] | Some names \<Rightarrow> names))"

subsection \<open>\<^verbatim>\<open>create_model\<close>: the decision variables\<close>

text \<open>The placeholder teacher \<^verbatim>\<open>"Non assigne"\<close> of a course without teachers.\<close>

definition non_assigne :: string where
  "non_assigne = ''Non assign'' @ [char_of (233 :: nat)]"

definition curriculum_of :: "processed_data \<Rightarrow> string \<Rightarrow> string list" where
  "curriculum_of pd class_name = (case curriculum pd class_name of None \<Rightarrow> [] | Some cs \<Rightarrow> cs)"

text \<open>
  \<^verbatim>\<open>course_info.get('lecturers', []) + course_info.get('assistants', [])\<close>, where
  \<^verbatim>\<open>course_info\<close> is empty for a code that \<^verbatim>\<open>courses\<close> lacks; then
  \<^verbatim>\<open>teachers_for_course\<close>, with the placeholder when that list is empty; then the
  teachers that the loop does not skip (\<^verbatim>\<open>not teacher.strip()\<close>).
\<close>

definition listed_teachers :: "processed_data \<Rightarrow> string \<Rightarrow> string list" where
  "listed_teachers pd course_code =
     (case courses pd course_code of None \<Rightarrow> [] | Some ci \<Rightarrow> lecturers ci @ assistants ci)"

definition teachers_for_course :: "processed_data \<Rightarrow> string \<Rightarrow> string list" where
  "teachers_for_course pd course_code =
     (if listed_teachers pd course_code = [] then [non_assigne]
      else listed_teachers pd course_code)"

definition usable_teachers :: "processed_data \<Rightarrow> string \<Rightarrow> string list" where
  "usable_teachers pd course_code =
     filter (\<lambda>teacher. strip teacher \<noteq> []) (teachers_for_course pd course_code)"

text \<open>The keys in the order in which the six nested loops reach them.\<close>

definition generated_keys :: "processed_data \<Rightarrow> key list" where
  "generated_keys pd =
     concat (map (\<lambda>class_name.
       concat (map (\<lambda>course_code.
         concat (map (\<lambda>teacher.
           concat (map (\<lambda>room.
             concat (map (\<lambda>day.
               map (\<lambda>period. (class_name, course_code, teacher, room, day, period))
                 (map fst (periods pd)))
               (days pd)))
             (rooms pd)))
           (usable_teachers pd course_code)))
         (curriculum_of pd class_name)))
       (classes pd))"

text \<open>
  The keys of a dictionary after the assignments \<^verbatim>\<open>d[k] = ...\<close> for the keys of a list
  in turn: a key stays where it was first inserted.
\<close>

fun dict_keys :: "'a list \<Rightarrow> 'a list" where
  "dict_keys [] = []"
| "dict_keys (k # ks) = k # filter (\<lambda>k'. k' \<noteq> k) (dict_keys ks)"

definition assignments :: "processed_data \<Rightarrow> key list" where
  "assignments pd = dict_keys (generated_keys pd)"

subsection \<open>\<^verbatim>\<open>create_model\<close>: the constraints and the objective\<close>

text \<open>Each family scans all the keys; a group without variables adds no constraint.\<close>

definition group :: "(key list \<Rightarrow> constraint) \<Rightarrow> key list \<Rightarrow> (key \<Rightarrow> bool) \<Rightarrow> constraint list" where
  "group mk ks sel = (let vars = filter sel ks in if vars \<noteq> [] then [mk vars] else [])"

definition course_constraints :: "processed_data \<Rightarrow> key list \<Rightarrow> constraint list" where
  "course_constraints pd ks =
     concat (map (\<lambda>class_name.
       concat (map (\<lambda>course_code.
         group ExactlyOne ks (\<lambda>k. k_class k = class_name \<and> k_course k = course_code))
         (curriculum_of pd class_name)))
       (classes pd))"

definition slot_constraints ::
  "processed_data \<Rightarrow> key list \<Rightarrow> string list \<Rightarrow> (key \<Rightarrow> string) \<Rightarrow> constraint list" where
  "slot_constraints pd ks resources of_key =
     concat (map (\<lambda>resource.
       concat (map (\<lambda>day.
         concat (map (\<lambda>period.
           group AtMostOne ks
             (\<lambda>k. of_key k = resource \<and> k_day k = day \<and> k_period k = period))
           (map fst (periods pd))))
         (days pd)))
       resources)"

definition class_constraints :: "processed_data \<Rightarrow> key list \<Rightarrow> constraint list" where
  "class_constraints pd ks = slot_constraints pd ks (classes pd) k_class"

definition room_constraints :: "processed_data \<Rightarrow> key list \<Rightarrow> constraint list" where
  "room_constraints pd ks = slot_constraints pd ks (rooms pd) k_room"

definition teacher_constraints :: "processed_data \<Rightarrow> key list \<Rightarrow> constraint list" where
  "teacher_constraints pd ks = slot_constraints pd ks (teachers pd) k_teacher"

text \<open>
  \<^verbatim>\<open>next((5 - w for p, w in periods if p == period), 0)\<close>: the first entry of the
  period decides, and 0 is the value when there is none.
\<close>

definition period_weight :: "processed_data \<Rightarrow> string \<Rightarrow> int" where
  "period_weight pd period =
     (case filter (\<lambda>(p, w). p = period) (periods pd) of
        [] \<Rightarrow> 0
      | (p, w) # rest \<Rightarrow> 5 - w)"

definition objective_terms :: "processed_data \<Rightarrow> key list \<Rightarrow> (int \<times> key) list" where
  "objective_terms pd ks = map (\<lambda>k. (period_weight pd (k_period k), k)) ks"

definition build_model :: "processed_data \<Rightarrow> cp_model" where
  "build_model pd =
     (let ks = assignments pd
      in \<lparr>constraints =
            course_constraints pd ks @ class_constraints pd ks @
            room_constraints pd ks @ teacher_constraints pd ks,
          objective = objective_terms pd ks\<rparr>)"

subsection \<open>What the solver is asked for\<close>

text \<open>
  The meaning of the two kinds of constraints, of a model, and of its objective under the
  values \<open>v\<close> of the variables. CP-SAT answers \<^verbatim>\<open>OPTIMAL\<close> or \<^verbatim>\<open>FEASIBLE\<close> only with
  values that satisfy the model: \<open>solution\<close> says that of a response.
\<close>

fun holds :: "(key \<Rightarrow> bool) \<Rightarrow> constraint \<Rightarrow> bool" where
  "holds v (ExactlyOne ks) = (length (filter v ks) = 1)"
| "holds v (AtMostOne ks) = (length (filter v ks) \<le> 1)"

text \<open>The keys of the variables of a constraint.\<close>

fun c_keys :: "constraint \<Rightarrow> key list" where
  "c_keys (ExactlyOne ks) = ks"
| "c_keys (AtMostOne ks) = ks"

definition sat_model :: "cp_model \<Rightarrow> (key \<Rightarrow> bool) \<Rightarrow> bool" where
  "sat_model m v = list_all (holds v) (constraints m)"

definition objective_value :: "cp_model \<Rightarrow> (key \<Rightarrow> bool) \<Rightarrow> int" where
  "objective_value m v = sum_list (map (\<lambda>(c, k). if v k then c else 0) (objective m))"

definition found :: "status \<Rightarrow> bool" where
  "found st = (st = OPTIMAL \<or> st = FEASIBLE)"

definition solution :: "cp_model \<Rightarrow> response \<Rightarrow> bool" where
  "solution m r = (found (r_status r) \<and> sat_model m (r_value r))"


subsection \<open>\<^verbatim>\<open>create_model\<close>: the result\<close>

text \<open>
  \<^verbatim>\<open>self.timetable[class_name][day][period] = {...}\<close>, after the two levels are created
  when they are missing. Nothing is looked at before the entry is stored.
\<close>

definition course_name_of :: "processed_data \<Rightarrow> string \<Rightarrow> string" where
  "course_name_of pd course_code =
     (case courses pd course_code of None \<Rightarrow> ''Inconnu'' | Some ci \<Rightarrow> ci_name ci)"

fun entry_of :: "processed_data \<Rightarrow> key \<Rightarrow> entry" where
  "entry_of pd (class_name, course_code, teacher, room, day, period) =
     \<lparr>e_course = course_code, e_teacher = teacher, e_room = room,
      e_course_name = course_name_of pd course_code\<rparr>"

fun store :: "processed_data \<Rightarrow> timetable \<Rightarrow> key \<Rightarrow> timetable" where
  "store pd tt (class_name, course_code, teacher, room, day, period) =
     (let of_class = (case tt class_name of None \<Rightarrow> Map.empty | Some m \<Rightarrow> m);
          of_day = (case of_class day of None \<Rightarrow> Map.empty | Some m \<Rightarrow> m)
      in tt(class_name \<mapsto> of_class(day \<mapsto> of_day(period \<mapsto>
           entry_of pd (class_name, course_code, teacher, room, day, period)))))"

fun extract_timetable :: "processed_data \<Rightarrow> (key \<Rightarrow> bool) \<Rightarrow> timetable \<Rightarrow> key list \<Rightarrow> timetable" where
  "extract_timetable pd v tt [] = tt"
| "extract_timetable pd v tt (k # ks) = extract_timetable pd v (if v k then store pd tt k else tt) ks"

definition lookup :: "timetable \<Rightarrow> string \<Rightarrow> string \<Rightarrow> string \<Rightarrow> entry option" where
  "lookup tt class_name day period =
     (case tt class_name of
        None \<Rightarrow> None
      | Some of_class \<Rightarrow> (case of_class day of None \<Rightarrow> None | Some of_day \<Rightarrow> of_day period))"

text \<open>
  The method: what it returns, the instance afterwards and what it printed. \<open>solver\<close> is
  \<^verbatim>\<open>CpSolver.Solve\<close> with the time limit of 60 seconds, read afterwards through
  \<^verbatim>\<open>Value\<close> and \<^verbatim>\<open>ObjectiveValue\<close>. The list \<^verbatim>\<open>morning_periods\<close> is computed and
  never used.
\<close>

definition create_model :: "generator \<Rightarrow> (cp_model \<Rightarrow> response) \<Rightarrow> bool \<times> generator \<times> msg list" where
  "create_model g solver =
     (case processed g of
        None \<Rightarrow> (False, g, [InsufficientData])
      | Some pd \<Rightarrow>
          if classes pd = [] then (False, g, [InsufficientData])
          else
            (let model = build_model pd
             in if objective model = [] then (False, g, [CreatingModel, NoObjectiveVariable])
                else
                  (let r = solver model
                   in if r_status r = OPTIMAL \<or> r_status r = FEASIBLE
                      then (True,
                            g\<lparr>timetable := extract_timetable pd (r_value r) Map.empty (assignments pd)\<rparr>,
                            [CreatingModel, Solving, SolutionFound (r_status r) (r_objective_value r)])
                      else (False, g, [CreatingModel, Solving, NoSolutionFound (r_status r)]))))"

text \<open>
  The data that \<open>create_model\<close> finds after \<open>preprocess_data\<close> returned \<open>True\<close>, as
  \<^verbatim>\<open>run\<close> chains the two.
\<close>

definition preprocessed :: "generator \<Rightarrow> processed_data option" where
  "preprocessed g = (if fst (preprocess_data g) then processed (snd (preprocess_data g)) else None)"

subsection \<open>Example inputs\<close>

text \<open>
  A subject as \<^verbatim>\<open>load_data\<close> leaves it, with its level and semester, and a list of
  lecturers.
\<close>

definition a_subject :: "string \<Rightarrow> string \<Rightarrow> string \<Rightarrow> string list \<Rightarrow> subject" where
  "a_subject code level semester names =
     \<lparr>s_code = Some (CStr code), s_niveau = Some level, s_semestre = Some semester,
      s_name = Some (''Cours '' @ code), s_lecturer = Some (TList (map JStr names)),
      s_assistant = Some (TList []), s_credit = Some 6\<rparr>"

text \<open>
  One class with two courses, one teacher for both, one room, and a week of two slots:
  Monday's first two periods, of weights 1 and 2.
\<close>

definition monday :: generator where
  "monday = init\<lparr>
     rooms_data := Informatique [RoomDict (Some ''S1'')],
     subjects_data := [a_subject ''INF111'' ''1'' ''s1'' [''Ada''],
                       a_subject ''INF112'' ''1'' ''s1'' [''Ada'']],
     g_days := [''Lundi''],
     g_periods := [(''07:00-09:55'', 1), (''10:05-12:55'', 2)]\<rparr>"

definition monday_pd :: processed_data where
  "monday_pd = the (preprocessed monday)"

definition m11 :: key where
  "m11 = (''L1_s1'', ''INF111'', ''Ada'', ''S1'', ''Lundi'', ''07:00-09:55'')"

definition m12 :: key where
  "m12 = (''L1_s1'', ''INF111'', ''Ada'', ''S1'', ''Lundi'', ''10:05-12:55'')"

definition m21 :: key where
  "m21 = (''L1_s1'', ''INF112'', ''Ada'', ''S1'', ''Lundi'', ''07:00-09:55'')"

definition m22 :: key where
  "m22 = (''L1_s1'', ''INF112'', ''Ada'', ''S1'', ''Lundi'', ''10:05-12:55'')"

text \<open>An answer of the solver: the first course in the first period, the second in the second.\<close>

definition monday_response :: response where
  "monday_response =
     \<lparr>r_status = OPTIMAL, r_value = (\<lambda>k. k = m11 \<or> k = m22), r_objective_value = 7\<rparr>"

text \<open>
  The instance after \<open>preprocess_data\<close> on the Monday example; a solver that answers a
  status without a solution; and an answer that no solver gives, every variable true with
  the status \<^verbatim>\<open>FEASIBLE\<close>, under which variables collide.
\<close>

definition monday_ready :: generator where
  "monday_ready = snd (preprocess_data monday)"

definition answers :: "status \<Rightarrow> cp_model \<Rightarrow> response" where
  "answers st m = \<lparr>r_status = st, r_value = (\<lambda>k. False), r_objective_value = 0\<rparr>"

definition all_true :: "cp_model \<Rightarrow> response" where
  "all_true m = \<lparr>r_status = FEASIBLE, r_value = (\<lambda>k. True), r_objective_value = 14\<rparr>"

definition monday_solver :: "cp_model \<Rightarrow> response" where
  "monday_solver m = monday_response"

text \<open>The configured week of six days and five periods, with one course and one room.\<close>

definition week :: generator where
  "week = init\<lparr>
     rooms_data := Informatique [RoomDict (Some ''S1'')],
     subjects_data := [a_subject ''INF111'' ''1'' ''s1'' [''Ada'']]\<rparr>"

definition week_pd :: processed_data where
  "week_pd = the (preprocessed week)"

text \<open>An answer of the solver: the course on Tuesday in the second period.\<close>

definition week_response :: response where
  "week_response =
     \<lparr>r_status = OPTIMAL,
      r_value = (\<lambda>k. k = (''L1_s1'', ''INF111'', ''Ada'', ''S1'', ''Mardi'', ''10:05-12:55'')),
      r_objective_value = 3\<rparr>"

text \<open>
  Two classes with one course each, neither with a teacher, two rooms and a week of one slot;
  an answer of the solver that holds both courses in that slot, in different rooms.
\<close>

definition unstaffed :: generator where
  "unstaffed = init\<lparr>
     rooms_data := Informatique [RoomDict (Some ''S1''), RoomDict (Some ''S2'')],
     subjects_data := [a_subject ''INF111'' ''1'' ''s1'' [], a_subject ''INF211'' ''2'' ''s1'' []],
     g_days := [''Lundi''],
     g_periods := [(''07:00-09:55'', 1)]\<rparr>"

definition unstaffed_pd :: processed_data where
  "unstaffed_pd = the (preprocessed unstaffed)"

definition u1 :: key where
  "u1 = (''L1_s1'', ''INF111'', non_assigne, ''S1'', ''Lundi'', ''07:00-09:55'')"

definition u2 :: key where
  "u2 = (''L2_s1'', ''INF211'', non_assigne, ''S2'', ''Lundi'', ''07:00-09:55'')"

definition unstaffed_response :: response where
  "unstaffed_response =
     \<lparr>r_status = OPTIMAL, r_value = (\<lambda>k. k = u1 \<or> k = u2), r_objective_value = 8\<rparr>"

text \<open>
  Three classes with one course each, the first with a teacher and the others without, three
  rooms and a week of one slot; an answer of the solver with the three courses in that slot.
\<close>

definition mixed :: generator where
  "mixed = init\<lparr>
     rooms_data := Informatique [RoomDict (Some ''S1''), RoomDict (Some ''S2''), RoomDict (Some ''S3'')],
     subjects_data := [a_subject ''INF111'' ''1'' ''s1'' [''Ada''],
                       a_subject ''INF211'' ''2'' ''s1'' [],
                       a_subject ''INF311'' ''3'' ''s1'' []],
     g_days := [''Lundi''],
     g_periods := [(''07:00-09:55'', 1)]\<rparr>"

definition mixed_pd :: processed_data where
  "mixed_pd = the (preprocessed mixed)"

definition x1 :: key where
  "x1 = (''L1_s1'', ''INF111'', ''Ada'', ''S1'', ''Lundi'', ''07:00-09:55'')"

definition x2 :: key where
  "x2 = (''L2_s1'', ''INF211'', non_assigne, ''S2'', ''Lundi'', ''07:00-09:55'')"

definition x3 :: key where
  "x3 = (''L3_s1'', ''INF311'', non_assigne, ''S3'', ''Lundi'', ''07:00-09:55'')"

definition mixed_response :: response where
  "mixed_response =
     \<lparr>r_status = FEASIBLE, r_value = (\<lambda>k. k = x1 \<or> k = x2 \<or> k = x3), r_objective_value = 12\<rparr>"







text \<open>The Monday example with one slot only for the two courses of the class.\<close>

definition crowded :: generator where
  "crowded = monday\<lparr>g_periods := [(''07:00-09:55'', 1)]\<rparr>"


definition crowded_ready :: generator where
  "crowded_ready = snd (preprocess_data crowded)"

text \<open>
  Two classes with one course each, the first naming the placeholder's own name as its
  lecturer and the second without a teacher, two rooms and Monday's two first periods; an
  answer of the solver with one course in each period.
\<close>

definition named :: generator where
  "named = init\<lparr>
     rooms_data := Informatique [RoomDict (Some ''S1''), RoomDict (Some ''S2'')],
     subjects_data := [a_subject ''INF111'' ''1'' ''s1'' [non_assigne],
                       a_subject ''INF211'' ''2'' ''s1'' []],
     g_days := [''Lundi''],
     g_periods := [(''07:00-09:55'', 1), (''10:05-12:55'', 2)]\<rparr>"

definition named_pd :: processed_data where
  "named_pd = the (preprocessed named)"

definition n1 :: key where
  "n1 = (''L1_s1'', ''INF111'', non_assigne, ''S1'', ''Lundi'', ''07:00-09:55'')"

definition n2 :: key where
  "n2 = (''L2_s1'', ''INF211'', non_assigne, ''S2'', ''Lundi'', ''10:05-12:55'')"

definition named_response :: response where
  "named_response =
     \<lparr>r_status = OPTIMAL, r_value = (\<lambda>k. k = n1 \<or> k = n2), r_objective_value = 7\<rparr>"










section \<open>Properties\<close>

subsection \<open>The decision variables and the constraints\<close>

lemma set_dict_keys: "set (dict_keys ks) = set ks"
  by (induction ks) auto

lemma distinct_dict_keys: "distinct (dict_keys ks)"
  by (induction ks) (auto simp: set_dict_keys)

lemma in_generated_keys:
  "(c, co, t, r, d, p) \<in> set (generated_keys pd) \<longleftrightarrow>
     c \<in> set (classes pd) \<and> co \<in> set (curriculum_of pd c) \<and>
     t \<in> set (usable_teachers pd co) \<and> r \<in> set (rooms pd) \<and>
     d \<in> set (days pd) \<and> p \<in> fst ` set (periods pd)"
  unfolding generated_keys_def by (simp add: image_iff)

lemma in_assignments:
  "k \<in> set (assignments pd) \<longleftrightarrow>
     k_class k \<in> set (classes pd) \<and> k_course k \<in> set (curriculum_of pd (k_class k)) \<and>
     k_teacher k \<in> set (usable_teachers pd (k_course k)) \<and> k_room k \<in> set (rooms pd) \<and>
     k_day k \<in> set (days pd) \<and> k_period k \<in> fst ` set (periods pd)"
  by (cases k) (simp add: assignments_def set_dict_keys in_generated_keys)

lemma distinct_assignments: "distinct (assignments pd)"
  by (simp add: assignments_def distinct_dict_keys)

lemma filter_at_most_one:
  assumes "distinct xs" "length (filter P xs) \<le> 1" "x \<in> set xs" "y \<in> set xs" "P x" "P y"
  shows "x = y"
proof (rule ccontr)
  assume "x \<noteq> y"
  have "distinct (filter P xs)" using assms(1) by simp
  then have "card (set (filter P xs)) = length (filter P xs)" by (rule distinct_card)
  moreover have "{x, y} \<subseteq> set (filter P xs)" using assms by simp
  then have "card {x, y} \<le> card (set (filter P xs))" by (intro card_mono) simp_all
  ultimately show False using \<open>x \<noteq> y\<close> assms(2) by simp
qed

lemma filter_exactly_one:
  assumes "distinct xs" "length (filter P xs) = 1"
  shows "\<exists>!x. x \<in> set xs \<and> P x"
proof -
  from assms(2) obtain x where "filter P xs = [x]"
    by (cases "filter P xs") auto
  then have "x \<in> set (filter P xs)" by simp
  then have "x \<in> set xs \<and> P x" by simp
  moreover have "y = x" if "y \<in> set xs \<and> P y" for y
    using filter_at_most_one [OF assms(1), of P y x] assms(2) that calculation by simp
  ultimately show ?thesis by blast
qed

lemma group_mem: "filter sel ks \<noteq> [] \<Longrightarrow> mk (filter sel ks) \<in> set (group mk ks sel)"
  by (simp add: group_def)

lemma set_course_constraints:
  "set (course_constraints pd ks) =
     (\<Union>c \<in> set (classes pd). \<Union>co \<in> set (curriculum_of pd c).
        set (group ExactlyOne ks (\<lambda>k. k_class k = c \<and> k_course k = co)))"
  by (simp add: course_constraints_def)

lemma set_slot_constraints:
  "set (slot_constraints pd ks resources of_key) =
     (\<Union>res \<in> set resources. \<Union>d \<in> set (days pd). \<Union>p \<in> fst ` set (periods pd).
        set (group AtMostOne ks (\<lambda>k. of_key k = res \<and> k_day k = d \<and> k_period k = p)))"
  by (simp add: slot_constraints_def)

lemma course_constraint_mem:
  assumes "c \<in> set (classes pd)" "co \<in> set (curriculum_of pd c)"
    "filter (\<lambda>k. k_class k = c \<and> k_course k = co) ks \<noteq> []"
  shows "ExactlyOne (filter (\<lambda>k. k_class k = c \<and> k_course k = co) ks)
           \<in> set (course_constraints pd ks)"
  unfolding set_course_constraints using assms(1,2) group_mem [OF assms(3), of ExactlyOne]
  by blast

lemma slot_constraint_mem:
  assumes "res \<in> set resources" "d \<in> set (days pd)" "p \<in> fst ` set (periods pd)"
    "filter (\<lambda>k. of_key k = res \<and> k_day k = d \<and> k_period k = p) ks \<noteq> []"
  shows "AtMostOne (filter (\<lambda>k. of_key k = res \<and> k_day k = d \<and> k_period k = p) ks)
           \<in> set (slot_constraints pd ks resources of_key)"
  unfolding set_slot_constraints using assms(1-3) group_mem [OF assms(4), of AtMostOne]
  by blast

lemma sat_modelD:
  "sat_model m v \<Longrightarrow> c \<in> set (constraints m) \<Longrightarrow> holds v c"
  by (simp add: sat_model_def list_all_iff)

lemma constraints_build_model:
  "set (constraints (build_model pd)) =
     set (course_constraints pd (assignments pd)) \<union> set (class_constraints pd (assignments pd)) \<union>
     set (room_constraints pd (assignments pd)) \<union> set (teacher_constraints pd (assignments pd))"
  by (auto simp: build_model_def Let_def)

lemma sat_slot:
  assumes "sat_model (build_model pd) v"
    "set (slot_constraints pd (assignments pd) resources of_key) \<subseteq> set (constraints (build_model pd))"
    "res \<in> set resources" "d \<in> set (days pd)" "p \<in> fst ` set (periods pd)"
  shows "length (filter v (filter (\<lambda>k. of_key k = res \<and> k_day k = d \<and> k_period k = p)
           (assignments pd))) \<le> 1"
proof (cases "filter (\<lambda>k. of_key k = res \<and> k_day k = d \<and> k_period k = p) (assignments pd) = []")
  case True
  then show ?thesis by simp
next
  case False
  from slot_constraint_mem [OF assms(3-5) False] assms(2)
  have "AtMostOne (filter (\<lambda>k. of_key k = res \<and> k_day k = d \<and> k_period k = p) (assignments pd))
          \<in> set (constraints (build_model pd))" by blast
  from sat_modelD [OF assms(1) this] show ?thesis by simp
qed

lemma sat_course:
  assumes "sat_model (build_model pd) v" "c \<in> set (classes pd)" "co \<in> set (curriculum_of pd c)"
    "filter (\<lambda>k. k_class k = c \<and> k_course k = co) (assignments pd) \<noteq> []"
  shows "length (filter v (filter (\<lambda>k. k_class k = c \<and> k_course k = co) (assignments pd))) = 1"
proof -
  from course_constraint_mem [OF assms(2-4)]
  have "ExactlyOne (filter (\<lambda>k. k_class k = c \<and> k_course k = co) (assignments pd))
          \<in> set (constraints (build_model pd))" by (simp add: constraints_build_model)
  from sat_modelD [OF assms(1) this] show ?thesis by simp
qed


subsection \<open>After preprocessing\<close>

lemma preprocessed_Some:
  "fst (preprocess_data g) \<Longrightarrow> preprocessed g = Some (the (preprocessed g))"
  by (auto simp: preprocessed_def preprocess_data_def split: option.splits)

lemma preprocessed_fields:
  "preprocessed g = Some pd \<Longrightarrow>
     periods pd = g_periods g \<and> days pd = g_days g \<and> room_nums (rooms_data g) = Some (rooms pd)"
  by (auto simp: preprocessed_def preprocess_data_def split: option.splits if_splits)

text \<open>
  Claim C9. A decision variable exists only for a class of the list of classes, a course of
  the curriculum of that class, and a teacher of the list of the course: its lecturers
  followed by its assistants, or the placeholder alone when there is none. Room, day and
  period are not restricted by it.
\<close>

theorem variables_only_for_eligible:
  assumes "k \<in> set (assignments pd)"
  shows "k_class k \<in> set (classes pd) \<and>
         k_course k \<in> set (curriculum_of pd (k_class k)) \<and>
         k_teacher k \<in> set (teachers_for_course pd (k_course k))"
  using assms by (simp add: in_assignments usable_teachers_def)

theorem variables_only_for_eligible_witness:
  "m11 \<in> set (assignments monday_pd) \<and>
   k_class m11 \<in> set (classes monday_pd) \<and>
   k_course m11 \<in> set (curriculum_of monday_pd (k_class m11)) \<and>
   k_teacher m11 \<in> set (teachers_for_course monday_pd (k_course m11)) \<and>
   teachers_for_course monday_pd (k_course m11) = [''Ada'']"
proof -
  have h: "m11 \<in> set (assignments monday_pd)" by code_simp
  have t: "teachers_for_course monday_pd (k_course m11) = [''Ada'']" by code_simp
  from variables_only_for_eligible [OF h] h t show ?thesis by blast
qed

lemma period_weight_found:
  assumes "p \<in> fst ` set (periods pd)"
  shows "\<exists>w. (p, w) \<in> set (periods pd) \<and> period_weight pd p = 5 - w"
proof -
  have ne: "filter (\<lambda>(q, w). q = p) (periods pd) \<noteq> []"
    using assms by (auto simp: filter_empty_conv)
  then obtain q w rest where f: "filter (\<lambda>(q, w). q = p) (periods pd) = (q, w) # rest"
    by (cases "filter (\<lambda>(q, w). q = p) (periods pd)") auto
  then have "(q, w) \<in> set (filter (\<lambda>(q, w). q = p) (periods pd))" by simp
  then have "(p, w) \<in> set (periods pd)" by auto
  moreover have "period_weight pd p = 5 - w" by (simp add: period_weight_def f)
  ultimately show ?thesis by blast
qed

text \<open>
  Claim C10. After \<open>preprocess_data\<close>, the period of every decision variable is a label of
  the configured periods, so the lookup of its weight finds an entry and never falls back to
  the default 0: the coefficient is 5 minus a configured weight. With the periods of
  \<^verbatim>\<open>__init__\<close> the label is one of the five.
\<close>

theorem period_lookup_never_defaults:
  assumes "preprocessed g = Some pd" "k \<in> set (assignments pd)"
  shows "k_period k \<in> fst ` set (g_periods g) \<and>
         filter (\<lambda>(p, w). p = k_period k) (periods pd) \<noteq> [] \<and>
         (\<exists>w. (k_period k, w) \<in> set (g_periods g) \<and> period_weight pd (k_period k) = 5 - w) \<and>
         (g_periods g = default_periods \<longrightarrow>
            k_period k \<in> {''07:00-09:55'', ''10:05-12:55'', ''13:05-15:55'',
                           ''16:05-18:55'', ''19:05-21:55''})"
proof -
  have per: "periods pd = g_periods g" using preprocessed_fields [OF assms(1)] by simp
  have mem: "k_period k \<in> fst ` set (periods pd)" using assms(2) by (simp add: in_assignments)
  have "filter (\<lambda>(p, w). p = k_period k) (periods pd) \<noteq> []"
    using mem by (auto simp: filter_empty_conv)
  moreover have "g_periods g = default_periods \<longrightarrow>
            k_period k \<in> {''07:00-09:55'', ''10:05-12:55'', ''13:05-15:55'',
                           ''16:05-18:55'', ''19:05-21:55''}"
    using mem per by (auto simp: default_periods_def)
  ultimately show ?thesis using mem per period_weight_found [OF mem] by simp
qed

theorem period_lookup_never_defaults_witness:
  "preprocessed week = Some week_pd \<and>
   (''L1_s1'', ''INF111'', ''Ada'', ''S1'', ''Samedi'', ''19:05-21:55'') \<in> set (assignments week_pd) \<and>
   g_periods week = default_periods \<and>
   filter (\<lambda>(p, w). p = ''19:05-21:55'') (periods week_pd) \<noteq> [] \<and>
   period_weight week_pd ''19:05-21:55'' = 0"
proof -
  have a: "preprocessed week = Some week_pd"
    unfolding week_pd_def by (rule preprocessed_Some) code_simp
  have b: "(''L1_s1'', ''INF111'', ''Ada'', ''S1'', ''Samedi'', ''19:05-21:55'')
             \<in> set (assignments week_pd)" by code_simp
  have c: "g_periods week = default_periods" by (simp add: week_def init_def)
  have d: "period_weight week_pd ''19:05-21:55'' = 0" by code_simp
  from period_lookup_never_defaults [OF a b] a b c d show ?thesis by simp
qed

subsection \<open>Consequences of the constraints\<close>

lemma solutionD: "solution m r \<Longrightarrow> sat_model m (r_value r)"
  by (simp add: solution_def)

lemma sat_class_slot:
  assumes "sat_model (build_model pd) v"
  shows "length (filter v (filter (\<lambda>k. k_class k = c \<and> k_day k = d \<and> k_period k = p)
           (assignments pd))) \<le> 1"
proof (cases "c \<in> set (classes pd) \<and> d \<in> set (days pd) \<and> p \<in> fst ` set (periods pd)")
  case True
  have "set (slot_constraints pd (assignments pd) (classes pd) k_class)
          \<subseteq> set (constraints (build_model pd))"
    by (auto simp: constraints_build_model class_constraints_def)
  from sat_slot [OF assms this] True show ?thesis by blast
next
  case False
  then have "filter (\<lambda>k. k_class k = c \<and> k_day k = d \<and> k_period k = p) (assignments pd) = []"
    by (auto simp: filter_empty_conv in_assignments)
  then show ?thesis by simp
qed

lemma sat_room_slot:
  assumes "sat_model (build_model pd) v"
  shows "length (filter v (filter (\<lambda>k. k_room k = rm \<and> k_day k = d \<and> k_period k = p)
           (assignments pd))) \<le> 1"
proof (cases "rm \<in> set (rooms pd) \<and> d \<in> set (days pd) \<and> p \<in> fst ` set (periods pd)")
  case True
  have "set (slot_constraints pd (assignments pd) (rooms pd) k_room)
          \<subseteq> set (constraints (build_model pd))"
    by (auto simp: constraints_build_model room_constraints_def)
  from sat_slot [OF assms this] True show ?thesis by blast
next
  case False
  then have "filter (\<lambda>k. k_room k = rm \<and> k_day k = d \<and> k_period k = p) (assignments pd) = []"
    by (auto simp: filter_empty_conv in_assignments)
  then show ?thesis by simp
qed

lemma sat_teacher_slot:
  assumes "sat_model (build_model pd) v" "t \<in> set (teachers pd)"
  shows "length (filter v (filter (\<lambda>k. k_teacher k = t \<and> k_day k = d \<and> k_period k = p)
           (assignments pd))) \<le> 1"
proof (cases "d \<in> set (days pd) \<and> p \<in> fst ` set (periods pd)")
  case True
  have "set (slot_constraints pd (assignments pd) (teachers pd) k_teacher)
          \<subseteq> set (constraints (build_model pd))"
    by (auto simp: constraints_build_model teacher_constraints_def)
  from sat_slot [OF assms(1) this assms(2)] True show ?thesis by blast
next
  case False
  then have "filter (\<lambda>k. k_teacher k = t \<and> k_day k = d \<and> k_period k = p) (assignments pd) = []"
    by (auto simp: filter_empty_conv in_assignments)
  then show ?thesis by simp
qed

subsection \<open>What every returned solution satisfies\<close>

text \<open>
  Claim C2. For a class of the list, a course of its curriculum, and at least one decision
  variable for the two, a solution that the solver returns with the status
  \<^verbatim>\<open>OPTIMAL\<close> or \<^verbatim>\<open>FEASIBLE\<close> makes exactly one variable of the pair true, over
  all teachers, rooms, days and periods.
\<close>

theorem exactly_one_per_class_course:
  assumes "solution (build_model pd) r"
    "class_name \<in> set (classes pd)" "course_code \<in> set (curriculum_of pd class_name)"
    "\<exists>k \<in> set (assignments pd). k_class k = class_name \<and> k_course k = course_code"
  shows "\<exists>!k. k \<in> set (assignments pd) \<and> k_class k = class_name \<and> k_course k = course_code \<and>
              r_value r k"
proof -
  let ?sel = "\<lambda>k. k_class k = class_name \<and> k_course k = course_code"
  have ne: "filter ?sel (assignments pd) \<noteq> []"
    using assms(4) by (auto simp: filter_empty_conv)
  have "length (filter (r_value r) (filter ?sel (assignments pd))) = 1"
    by (rule sat_course [OF solutionD [OF assms(1)] assms(2,3) ne])
  then have "length (filter (\<lambda>k. ?sel k \<and> r_value r k) (assignments pd)) = 1"
    by (simp add: conj_commute)
  from filter_exactly_one [OF distinct_assignments this]
  show ?thesis by (simp add: conj_assoc)
qed

theorem exactly_one_per_class_course_witness:
  "solution (build_model monday_pd) monday_response \<and>
   ''L1_s1'' \<in> set (classes monday_pd) \<and>
   ''INF112'' \<in> set (curriculum_of monday_pd ''L1_s1'') \<and>
   m21 \<in> set (assignments monday_pd) \<and>
   (\<exists>!k. k \<in> set (assignments monday_pd) \<and> k_class k = ''L1_s1'' \<and> k_course k = ''INF112'' \<and>
          r_value monday_response k)"
proof -
  have a: "solution (build_model monday_pd) monday_response" by code_simp
  have b: "''L1_s1'' \<in> set (classes monday_pd)" by code_simp
  have c: "''INF112'' \<in> set (curriculum_of monday_pd ''L1_s1'')" by code_simp
  have d: "m21 \<in> set (assignments monday_pd)" by code_simp
  have e: "k_class m21 = ''L1_s1'' \<and> k_course m21 = ''INF112''" by (simp add: m21_def)
  from d e have f: "\<exists>k \<in> set (assignments monday_pd). k_class k = ''L1_s1'' \<and> k_course k = ''INF112''"
    by blast
  from exactly_one_per_class_course [OF a b c f] a b c d show ?thesis by blast
qed

lemma true_in_same_group:
  assumes "length (filter v (filter sel (assignments pd))) \<le> 1"
    "k \<in> set (assignments pd)" "k' \<in> set (assignments pd)" "sel k" "sel k'" "v k" "v k'"
  shows "k = k'"
proof -
  have "distinct (filter sel (assignments pd))" by (simp add: distinct_assignments)
  from filter_at_most_one [OF this assms(1), of k k'] assms(2-7) show ?thesis by simp
qed

lemma no_two_in_class_slot:
  assumes "sat_model (build_model pd) v" "k \<in> set (assignments pd)" "k' \<in> set (assignments pd)"
    "v k" "v k'" "k_class k = k_class k'" "k_day k = k_day k'" "k_period k = k_period k'"
  shows "k = k'"
proof -
  let ?sel = "\<lambda>x. k_class x = k_class k \<and> k_day x = k_day k \<and> k_period x = k_period k"
  have le: "length (filter v (filter ?sel (assignments pd))) \<le> 1"
    by (rule sat_class_slot [OF assms(1)])
  have s1: "?sel k" by simp
  have s2: "?sel k'" using assms(6-8) by metis
  show ?thesis by (rule true_in_same_group [OF le assms(2,3) s1 s2 assms(4,5)])
qed

lemma no_two_in_room_slot:
  assumes "sat_model (build_model pd) v" "k \<in> set (assignments pd)" "k' \<in> set (assignments pd)"
    "v k" "v k'" "k_room k = k_room k'" "k_day k = k_day k'" "k_period k = k_period k'"
  shows "k = k'"
proof -
  let ?sel = "\<lambda>x. k_room x = k_room k \<and> k_day x = k_day k \<and> k_period x = k_period k"
  have le: "length (filter v (filter ?sel (assignments pd))) \<le> 1"
    by (rule sat_room_slot [OF assms(1)])
  have s1: "?sel k" by simp
  have s2: "?sel k'" using assms(6-8) by metis
  show ?thesis by (rule true_in_same_group [OF le assms(2,3) s1 s2 assms(4,5)])
qed

subsection \<open>Courses without teachers\<close>

lemma strip_non_assigne: "strip non_assigne \<noteq> []"
  by code_simp

lemma usable_unlisted:
  "listed_teachers pd co = [] \<Longrightarrow> usable_teachers pd co = [non_assigne]"
  by (simp add: usable_teachers_def teachers_for_course_def strip_non_assigne)

lemma has_variable:
  assumes "c \<in> set (classes pd)" "co \<in> set (curriculum_of pd c)"
    "usable_teachers pd co \<noteq> []" "rooms pd \<noteq> []" "days pd \<noteq> []" "periods pd \<noteq> []"
  shows "\<exists>k \<in> set (assignments pd). k_class k = c \<and> k_course k = co"
proof -
  obtain t where t: "t \<in> set (usable_teachers pd co)"
    using assms(3) by (cases "usable_teachers pd co") auto
  obtain rm where rm: "rm \<in> set (rooms pd)" using assms(4) by (cases "rooms pd") auto
  obtain d where d: "d \<in> set (days pd)" using assms(5) by (cases "days pd") auto
  obtain pw where pw: "pw \<in> set (periods pd)" using assms(6) by (cases "periods pd") auto
  have "(c, co, t, rm, d, fst pw) \<in> set (assignments pd)"
    using assms(1,2) t rm d pw by (simp add: in_assignments)
  then show ?thesis by force
qed

subsection \<open>The objective\<close>

lemma objective_build_model:
  "objective (build_model pd) = map (\<lambda>k. (period_weight pd (k_period k), k)) (assignments pd)"
  by (simp add: build_model_def Let_def objective_terms_def)

lemma period_weight_first:
  assumes "p \<in> fst ` set (periods pd)"
  shows "\<exists>w rest. filter (\<lambda>(q, w). q = p) (periods pd) = (p, w) # rest \<and>
           period_weight pd p = 5 - w"
proof -
  have "filter (\<lambda>(q, w). q = p) (periods pd) \<noteq> []"
    using assms by (auto simp: filter_empty_conv)
  then obtain q w rest where f: "filter (\<lambda>(q, w). q = p) (periods pd) = (q, w) # rest"
    by (cases "filter (\<lambda>(q, w). q = p) (periods pd)") auto
  then have "(q, w) \<in> set (filter (\<lambda>(q, w). q = p) (periods pd))" by simp
  then have "q = p" by simp
  with f show ?thesis by (simp add: period_weight_def)
qed

lemma monday_constraints:
  "constraints (build_model monday_pd) =
     [ExactlyOne [m11, m12], ExactlyOne [m21, m22],
      AtMostOne [m11, m21], AtMostOne [m12, m22],
      AtMostOne [m11, m21], AtMostOne [m12, m22],
      AtMostOne [m11, m21], AtMostOne [m12, m22]]"
  by code_simp

lemma monday_objective:
  "objective (build_model monday_pd) = [(4, m11), (3, m12), (4, m21), (3, m22)]"
  by code_simp

lemma monday_optimum:
  assumes "sat_model (build_model monday_pd) v"
  shows "objective_value (build_model monday_pd) v = 7"
  using assms unfolding sat_model_def objective_value_def monday_constraints monday_objective
  by (auto split: if_splits)

text \<open>
  Claim C1, amended. The coefficient of every decision variable in the objective is 5 minus
  the weight that the first entry of the variable's period gives: a period of weight 1
  contributes 4 and a period of weight 5 contributes 0. In the scenario of one class with
  two courses, one teacher, one room and Monday's two first periods, of weights 1 and 2,
  every returned solution, so the optimal one, has the objective value 4 + 3 = 7.
\<close>

theorem objective_coefficients:
  assumes "k \<in> set (assignments pd)" "solution (build_model monday_pd) r"
  shows "(\<exists>w rest. filter (\<lambda>(p, w). p = k_period k) (periods pd) = (k_period k, w) # rest \<and>
            (\<forall>c. (c, k) \<in> set (objective (build_model pd)) \<longleftrightarrow> c = 5 - w)) \<and>
         objective_value (build_model monday_pd) (r_value r) = 7"
proof -
  have "k_period k \<in> fst ` set (periods pd)" using assms(1) by (simp add: in_assignments)
  from period_weight_first [OF this] obtain w rest where
    f: "filter (\<lambda>(p, w). p = k_period k) (periods pd) = (k_period k, w) # rest" and
    pw: "period_weight pd (k_period k) = 5 - w" by blast
  have "(c, k) \<in> set (objective (build_model pd)) \<longleftrightarrow> c = period_weight pd (k_period k)" for c
    using assms(1) by (auto simp: objective_build_model)
  then have "(c, k) \<in> set (objective (build_model pd)) \<longleftrightarrow> c = 5 - w" for c
    by (simp add: pw)
  with f have "\<exists>w rest. filter (\<lambda>(p, w). p = k_period k) (periods pd) = (k_period k, w) # rest \<and>
            (\<forall>c. (c, k) \<in> set (objective (build_model pd)) \<longleftrightarrow> c = 5 - w)" by blast
  moreover have "objective_value (build_model monday_pd) (r_value r) = 7"
    by (rule monday_optimum [OF solutionD [OF assms(2)]])
  ultimately show ?thesis by blast
qed

theorem objective_coefficients_witness:
  "m22 \<in> set (assignments monday_pd) \<and> solution (build_model monday_pd) monday_response \<and>
   objective_value (build_model monday_pd) (r_value monday_response) = 7"
proof -
  have a: "m22 \<in> set (assignments monday_pd)" by code_simp
  have b: "solution (build_model monday_pd) monday_response" by code_simp
  from objective_coefficients [OF a b] a b show ?thesis by blast
qed

theorem objective_coefficients_counterexample:
  "period_weight week_pd ''07:00-09:55'' = 4 \<and> period_weight week_pd ''19:05-21:55'' = 0 \<and>
   objective (build_model monday_pd) = [(4, m11), (3, m12), (4, m21), (3, m22)] \<and>
   solution (build_model monday_pd) monday_response \<and>
   objective_value (build_model monday_pd) (r_value monday_response) = 7"
  by code_simp

subsection \<open>The outcome of \<open>create_model\<close>\<close>

lemma create_model_solved:
  assumes "processed g = Some pd" "classes pd \<noteq> []" "assignments pd \<noteq> []"
  shows "create_model g solver =
           (if found (r_status (solver (build_model pd)))
            then (True,
                  g\<lparr>timetable := extract_timetable pd (r_value (solver (build_model pd))) Map.empty
                     (assignments pd)\<rparr>,
                  [CreatingModel, Solving,
                   SolutionFound (r_status (solver (build_model pd)))
                     (r_objective_value (solver (build_model pd)))])
            else (False, g, [CreatingModel, Solving, NoSolutionFound (r_status (solver (build_model pd)))]))"
  using assms by (simp add: create_model_def Let_def found_def objective_build_model)

lemma monday_ready_processed: "processed monday_ready = Some monday_pd"
proof -
  have "fst (preprocess_data monday)" by code_simp
  then show ?thesis
    using preprocessed_Some [of monday] by (simp add: monday_ready_def monday_pd_def preprocessed_def)
qed

text \<open>
  Claim C6, amended. Once the model has variables, \<open>create_model\<close> has two outcomes for its
  caller: \<open>True\<close>, with the timetable, when the status is \<^verbatim>\<open>OPTIMAL\<close> or
  \<^verbatim>\<open>FEASIBLE\<close>, and \<open>False\<close>, with the instance as it was, for every other status.
  \<^verbatim>\<open>INFEASIBLE\<close> and \<^verbatim>\<open>UNKNOWN\<close>, the status of a time limit reached without a
  solution, differ only in the number printed.
\<close>

theorem create_model_outcomes:
  assumes "processed g = Some pd" "classes pd \<noteq> []" "assignments pd \<noteq> []"
  shows "(fst (create_model g solver) \<longleftrightarrow>
            r_status (solver (build_model pd)) = OPTIMAL \<or>
            r_status (solver (build_model pd)) = FEASIBLE) \<and>
         (r_status (solver (build_model pd)) \<noteq> OPTIMAL \<and>
          r_status (solver (build_model pd)) \<noteq> FEASIBLE \<longrightarrow>
            create_model g solver =
              (False, g,
               [CreatingModel, Solving, NoSolutionFound (r_status (solver (build_model pd)))]))"
  by (simp add: create_model_solved [OF assms] found_def)

theorem create_model_outcomes_witness:
  "processed monday_ready = Some monday_pd \<and> classes monday_pd \<noteq> [] \<and>
   assignments monday_pd \<noteq> [] \<and>
   create_model monday_ready (answers INFEASIBLE) =
     (False, monday_ready, [CreatingModel, Solving, NoSolutionFound INFEASIBLE])"
proof -
  have b: "classes monday_pd \<noteq> []" by code_simp
  have c: "assignments monday_pd \<noteq> []" by code_simp
  from create_model_outcomes [OF monday_ready_processed b c, of "answers INFEASIBLE"]
    monday_ready_processed b c
  show ?thesis by (simp add: answers_def)
qed

theorem create_model_outcomes_counterexample:
  "fst (create_model monday_ready (answers INFEASIBLE)) = False \<and>
   fst (create_model monday_ready (answers UNKNOWN)) = False \<and>
   fst (snd (create_model monday_ready (answers INFEASIBLE))) =
     fst (snd (create_model monday_ready (answers UNKNOWN)))"
proof -
  have b: "classes monday_pd \<noteq> []" by code_simp
  have c: "assignments monday_pd \<noteq> []" by code_simp
  show ?thesis
    by (simp add: create_model_solved [OF monday_ready_processed b c] answers_def found_def)
qed


subsection \<open>The extraction of the timetable\<close>

lemma lookup_store:
  "lookup (store pd tt k) c d p =
     (if k_class k = c \<and> k_day k = d \<and> k_period k = p then Some (entry_of pd k)
      else lookup tt c d p)"
  by (cases k) (auto simp: lookup_def Let_def split: option.splits)

lemma lookup_empty: "lookup Map.empty c d p = None"
  by (simp add: lookup_def)

lemma lookup_extract:
  "lookup (extract_timetable pd v tt ks) c d p =
     (case filter (\<lambda>k. v k \<and> k_class k = c \<and> k_day k = d \<and> k_period k = p) ks of
        [] \<Rightarrow> lookup tt c d p
      | x # xs \<Rightarrow> Some (entry_of pd (last (x # xs))))"
proof (induction ks arbitrary: tt)
  case Nil
  then show ?case by simp
next
  case (Cons k ks)
  show ?case
    by (simp add: Cons.IH lookup_store split: list.splits)
qed

text \<open>
  Claim C7, amended. The extraction checks nothing: with a status \<^verbatim>\<open>OPTIMAL\<close> or
  \<^verbatim>\<open>FEASIBLE\<close>, \<open>create_model\<close> returns \<open>True\<close>, and the entry of a class, day and
  period is that of the last true variable of the three, in the order in which the variables
  were created; an earlier one is overwritten. When the values satisfy the constraints of
  the model, no two true variables collide, and every true variable has its entry.
\<close>

theorem extraction_keeps_last:
  assumes "processed g = Some pd" "classes pd \<noteq> []" "assignments pd \<noteq> []"
    "found (r_status (solver (build_model pd)))"
  shows "fst (create_model g solver) \<and>
         lookup (timetable (fst (snd (create_model g solver)))) c d p =
           (case filter (\<lambda>k. r_value (solver (build_model pd)) k \<and>
                             k_class k = c \<and> k_day k = d \<and> k_period k = p) (assignments pd) of
              [] \<Rightarrow> None
            | x # xs \<Rightarrow> Some (entry_of pd (last (x # xs)))) \<and>
         (sat_model (build_model pd) (r_value (solver (build_model pd))) \<longrightarrow>
            (\<forall>k \<in> set (assignments pd). r_value (solver (build_model pd)) k \<longrightarrow>
               lookup (timetable (fst (snd (create_model g solver))))
                 (k_class k) (k_day k) (k_period k) = Some (entry_of pd k)))"
proof -
  let ?v = "r_value (solver (build_model pd))"
  let ?tt = "timetable (fst (snd (create_model g solver)))"
  have cm: "fst (create_model g solver)"
    "?tt = extract_timetable pd ?v Map.empty (assignments pd)"
    using assms(4) by (simp_all add: create_model_solved [OF assms(1-3)])
  have lk: "lookup ?tt c d p =
           (case filter (\<lambda>k. ?v k \<and> k_class k = c \<and> k_day k = d \<and> k_period k = p)
                   (assignments pd) of
              [] \<Rightarrow> None
            | x # xs \<Rightarrow> Some (entry_of pd (last (x # xs))))" for c d p
    by (simp add: cm(2) lookup_extract lookup_empty split: list.splits)
  have "lookup ?tt (k_class k) (k_day k) (k_period k) = Some (entry_of pd k)"
    if sat: "sat_model (build_model pd) ?v" and k: "k \<in> set (assignments pd)" "?v k" for k
  proof -
    let ?f = "filter (\<lambda>k'. ?v k' \<and> k_class k' = k_class k \<and> k_day k' = k_day k \<and>
                k_period k' = k_period k) (assignments pd)"
    have kin: "k \<in> set ?f" using k by simp
    then obtain x xs where f: "?f = x # xs" by (cases ?f) auto
    then have "last (x # xs) \<in> set ?f" by (metis last_in_set list.distinct(1))
    then have "last (x # xs) \<in> set (assignments pd)" "?v (last (x # xs))"
      "k_class (last (x # xs)) = k_class k" "k_day (last (x # xs)) = k_day k"
      "k_period (last (x # xs)) = k_period k"
      by simp_all
    from no_two_in_class_slot [OF sat this(1) k(1) this(2) k(2) this(3-5)]
    have "last (x # xs) = k" .
    with f show ?thesis by (simp add: lk del: last.simps)
  qed
  with cm(1) lk show ?thesis by blast
qed

theorem extraction_keeps_last_witness:
  "processed monday_ready = Some monday_pd \<and> classes monday_pd \<noteq> [] \<and>
   assignments monday_pd \<noteq> [] \<and> found (r_status (monday_solver (build_model monday_pd))) \<and>
   fst (create_model monday_ready monday_solver) \<and>
   lookup (timetable (fst (snd (create_model monday_ready monday_solver))))
     ''L1_s1'' ''Lundi'' ''10:05-12:55'' = Some (entry_of monday_pd m22)"
proof -
  have b: "classes monday_pd \<noteq> []" by code_simp
  have c: "assignments monday_pd \<noteq> []" by code_simp
  have d: "found (r_status (monday_solver (build_model monday_pd)))" by code_simp
  have e: "sat_model (build_model monday_pd) (r_value (monday_solver (build_model monday_pd)))"
    by code_simp
  have f: "m22 \<in> set (assignments monday_pd)" by code_simp
  have g: "r_value (monday_solver (build_model monday_pd)) m22" by code_simp
  have h: "k_class m22 = ''L1_s1'' \<and> k_day m22 = ''Lundi'' \<and> k_period m22 = ''10:05-12:55''"
    by (simp add: m22_def)
  from extraction_keeps_last [of monday_ready monday_pd monday_solver
      "''L1_s1''" "''Lundi''" "''10:05-12:55''", OF monday_ready_processed b c d]
    e f g h monday_ready_processed b c d
  show ?thesis by metis
qed

theorem extraction_keeps_last_counterexample:
  "r_status (all_true (build_model monday_pd)) = FEASIBLE \<and>
   r_value (all_true (build_model monday_pd)) m11 \<and>
   r_value (all_true (build_model monday_pd)) m21 \<and>
   m11 \<in> set (assignments monday_pd) \<and> m21 \<in> set (assignments monday_pd) \<and> m11 \<noteq> m21 \<and>
   k_class m11 = k_class m21 \<and> k_day m11 = k_day m21 \<and> k_period m11 = k_period m21 \<and>
   create_model monday_ready all_true =
     (True,
      fst (snd (create_model monday_ready all_true)),
      [CreatingModel, Solving, SolutionFound FEASIBLE 14]) \<and>
   lookup (timetable (fst (snd (create_model monday_ready all_true))))
     ''L1_s1'' ''Lundi'' ''07:00-09:55'' = Some (entry_of monday_pd m21)"
proof -
  have b: "classes monday_pd \<noteq> []" by code_simp
  have c: "assignments monday_pd \<noteq> []" by code_simp
  have d: "found (r_status (all_true (build_model monday_pd)))"
    by (simp add: all_true_def found_def)
  have ass: "assignments monday_pd = [m11, m12, m21, m22]" by code_simp
  have keys: "m11 \<noteq> m21" "k_class m11 = k_class m21" "k_day m11 = k_day m21"
    "k_period m11 = k_period m21" "k_class m21 = ''L1_s1''" "k_day m21 = ''Lundi''"
    "k_period m21 = ''07:00-09:55''" "k_period m12 \<noteq> ''07:00-09:55''"
    "k_period m22 \<noteq> ''07:00-09:55''"
    by (simp_all add: m11_def m21_def m12_def m22_def)
  have cm: "create_model monday_ready all_true =
     (True,
      monday_ready\<lparr>timetable := extract_timetable monday_pd (\<lambda>k. True) Map.empty
         (assignments monday_pd)\<rparr>,
      [CreatingModel, Solving, SolutionFound FEASIBLE 14])"
    using d by (simp add: create_model_solved [OF monday_ready_processed b c] all_true_def)
  have "lookup (extract_timetable monday_pd (\<lambda>k. True) Map.empty (assignments monday_pd))
          ''L1_s1'' ''Lundi'' ''07:00-09:55'' = Some (entry_of monday_pd m21)"
    unfolding lookup_extract ass using keys by (simp add: lookup_empty)
  with cm keys show ?thesis by (simp add: all_true_def ass)
qed

subsection \<open>The loop over the subjects\<close>

lemma dropWhile_hd: "xs \<noteq> [] \<Longrightarrow> \<not> P (hd xs) \<Longrightarrow> dropWhile P xs = xs"
  by (cases xs) auto

lemma strip_idem: "strip (strip s) = strip s"
proof -
  define t where "t = dropWhile py_space s"
  define u where "u = dropWhile py_space (rev t)"
  have s: "strip s = rev u" by (simp add: strip_def t_def u_def)
  have 1: "dropWhile py_space u = u" by (simp add: u_def)
  have 2: "dropWhile py_space (rev u) = rev u"
  proof (cases "u = []")
    case True
    then show ?thesis by simp
  next
    case False
    have "rev t = takeWhile py_space (rev t) @ u" by (simp add: u_def)
    then have "last (rev t) = last u" using False by (metis last_appendR)
    moreover have tne: "t \<noteq> []" using False by (auto simp: u_def)
    ultimately have "last u = hd t" by (simp add: last_rev)
    moreover have "\<not> py_space (hd t)" using tne unfolding t_def by (rule hd_dropWhile)
    ultimately have "\<not> py_space (hd (rev u))" using False by (simp add: hd_rev)
    then show ?thesis using False by (intro dropWhile_hd) simp_all
  qed
  show ?thesis unfolding s by (simp add: strip_def 2 1)
qed

lemma valid_item_valid: "t \<in> set (valid_item x) \<Longrightarrow> strip t \<noteq> []"
  by (cases x) (auto simp: strip_idem split: if_splits)

lemma step_skipped: "skipped subj \<Longrightarrow> step a subj = Some a"
  by (auto simp: skipped_def step_def split: option.splits cfield.splits)



lemma step_coded:
  assumes "step a subj = Some a'" "\<not> skipped subj"
  obtains code n vl va where
    "s_code subj = Some (CStr code)" "code \<noteq> []"
    "valid_names (s_lecturer subj) = Some vl" "valid_names (s_assistant subj) = Some va"
    "subject_teachers subj = vl @ va"
    "a' = add_course a subj (class_name_of subj code n) code vl va"
  using assms
  by (auto simp: step_def skipped_def subject_teachers_def split: option.splits cfield.splits if_splits)

lemma add_course_fields:
  "a_classes (add_course a subj cn code vl va) = insert cn (a_classes a)"
  "a_teachers (add_course a subj cn code vl va) = a_teachers a \<union> set vl \<union> set va"
  "a_curriculum (add_course a subj cn code vl va) cn \<noteq> None"
  "a_curriculum (add_course a subj cn code vl va) cn \<noteq> Some []"
  "c \<noteq> cn \<Longrightarrow> a_curriculum (add_course a subj cn code vl va) c = a_curriculum a c"
  "co \<noteq> code \<Longrightarrow> a_courses (add_course a subj cn code vl va) co = a_courses a co"
  "\<exists>ci. a_courses (add_course a subj cn code vl va) code = Some ci \<and>
        lecturers ci = vl \<and> assistants ci = va"
  by (simp_all add: add_course_def Let_def)

lemma steps_invariant:
  assumes "steps a subjs = Some a'" "P a"
    and "\<And>a subj a'. P a \<Longrightarrow> step a subj = Some a' \<Longrightarrow> P a'"
  shows "P a'"
  using assms(1,2)
proof (induction subjs arbitrary: a)
  case Nil
  then show ?case by simp
next
  case (Cons subj subjs)
  from Cons.prems(1) obtain a1 where a1: "step a subj = Some a1" "steps a1 subjs = Some a'"
    by (auto split: option.splits)
  from Cons.IH [OF a1(2) assms(3) [OF Cons.prems(2) a1(1)]] show ?case .
qed

lemma step_teachers:
  assumes "step a subj = Some a'"
  shows "a_teachers a' = a_teachers a \<union> set (subject_teachers subj)"
proof (cases "skipped subj")
  case True
  with assms step_skipped [OF True, of a] show ?thesis by (simp add: subject_teachers_def)
next
  case False
  from step_coded [OF assms False] obtain code n vl va where
    "subject_teachers subj = vl @ va"
    "a' = add_course a subj (class_name_of subj code n) code vl va" by metis
  then show ?thesis by (auto simp: add_course_fields)
qed

lemma steps_teachers:
  "steps a subjs = Some a' \<Longrightarrow>
     a_teachers a' = a_teachers a \<union> (\<Union>subj \<in> set subjs. set (subject_teachers subj))"
proof (induction subjs arbitrary: a)
  case Nil
  then show ?case by simp
next
  case (Cons subj subjs)
  from Cons.prems obtain a1 where a1: "step a subj = Some a1" "steps a1 subjs = Some a'"
    by (auto split: option.splits)
  from Cons.IH [OF a1(2)] step_teachers [OF a1(1)] show ?case by auto
qed



text \<open>
  What holds of the four variables throughout the loop: the sets are finite, the teachers
  of a course are stripped names that are not empty and are in the set of teachers, and the
  curriculum of a class of the set is not empty.
\<close>

lemma step_state:
  assumes "step a subj = Some a'"
    and "finite (a_classes a) \<and> finite (a_teachers a) \<and>
         (\<forall>co ci. a_courses a co = Some ci \<longrightarrow>
            (\<forall>t \<in> set (lecturers ci @ assistants ci). strip t \<noteq> [] \<and> t \<in> a_teachers a)) \<and>
         (\<forall>c \<in> a_classes a. a_curriculum a c \<noteq> None \<and> a_curriculum a c \<noteq> Some [])"
  shows "finite (a_classes a') \<and> finite (a_teachers a') \<and>
         (\<forall>co ci. a_courses a' co = Some ci \<longrightarrow>
            (\<forall>t \<in> set (lecturers ci @ assistants ci). strip t \<noteq> [] \<and> t \<in> a_teachers a')) \<and>
         (\<forall>c \<in> a_classes a'. a_curriculum a' c \<noteq> None \<and> a_curriculum a' c \<noteq> Some [])"
proof (cases "skipped subj")
  case True
  with assms step_skipped [OF True, of a] show ?thesis by simp
next
  case False
  from step_coded [OF assms(1) False] obtain code n vl va where
    vl: "valid_names (s_lecturer subj) = Some vl" and va: "valid_names (s_assistant subj) = Some va"
    and a': "a' = add_course a subj (class_name_of subj code n) code vl va" by metis
  let ?cn = "class_name_of subj code n"
  have valid: "strip t \<noteq> []" if "t \<in> set vl \<union> set va" for t
    using that vl va by (auto simp: valid_names_def dest: valid_item_valid)
  have fin: "finite (a_classes a') \<and> finite (a_teachers a')"
    using assms(2) by (simp add: a' add_course_fields)
  have crs: "strip t \<noteq> [] \<and> t \<in> a_teachers a'"
    if h: "a_courses a' co = Some ci" "t \<in> set (lecturers ci @ assistants ci)" for co ci t
  proof (cases "co = code")
    case True
    from add_course_fields(7) [of a subj ?cn code vl va] h(1) True
    have "lecturers ci = vl \<and> assistants ci = va" by (auto simp: a')
    with h(2) have "t \<in> set vl \<union> set va" by simp
    with valid show ?thesis by (auto simp: a' add_course_fields)
  next
    case False
    with h(1) have "a_courses a co = Some ci" by (simp add: a' add_course_fields)
    with assms(2) h(2) show ?thesis by (auto simp: a' add_course_fields)
  qed
  have cur: "a_curriculum a' c \<noteq> None \<and> a_curriculum a' c \<noteq> Some []"
    if "c \<in> a_classes a'" for c
  proof (cases "c = ?cn")
    case True
    then show ?thesis by (simp add: a' add_course_fields)
  next
    case False
    with that have "c \<in> a_classes a" by (simp add: a' add_course_fields)
    with assms(2) False show ?thesis by (simp add: a' add_course_fields)
  qed
  from fin crs cur show ?thesis by blast
qed

lemma preprocessed_state:
  assumes "preprocessed g = Some pd"
  defines "a \<equiv> the (steps acc0 (subjects_data g))"
  shows "steps acc0 (subjects_data g) = Some a"
    and "classes pd = sorted_list_of_set (a_classes a)"
    and "courses pd = a_courses a"
    and "teachers pd = sorted_list_of_set (a_teachers a)"
    and "curriculum pd = a_curriculum a"
    and "finite (a_classes a)"
    and "finite (a_teachers a)"
    and "\<forall>co ci. a_courses a co = Some ci \<longrightarrow>
       (\<forall>t \<in> set (lecturers ci @ assistants ci). strip t \<noteq> [] \<and> t \<in> a_teachers a)"
    and "\<forall>c \<in> a_classes a. a_curriculum a c \<noteq> None \<and> a_curriculum a c \<noteq> Some []"
proof -
  from assms(1) have a: "steps acc0 (subjects_data g) = Some a"
    "classes pd = sorted_list_of_set (a_classes a)" "courses pd = a_courses a"
    "teachers pd = sorted_list_of_set (a_teachers a)" "curriculum pd = a_curriculum a"
    unfolding a_def
    by (auto simp: preprocessed_def preprocess_data_def split: option.splits if_splits)
  have inv: "finite (a_classes a) \<and> finite (a_teachers a) \<and>
         (\<forall>co ci. a_courses a co = Some ci \<longrightarrow>
            (\<forall>t \<in> set (lecturers ci @ assistants ci). strip t \<noteq> [] \<and> t \<in> a_teachers a)) \<and>
         (\<forall>c \<in> a_classes a. a_curriculum a c \<noteq> None \<and> a_curriculum a c \<noteq> Some [])"
    by (rule steps_invariant [OF a(1)]) (simp add: acc0_def, rule step_state)
  show "steps acc0 (subjects_data g) = Some a"
    and "classes pd = sorted_list_of_set (a_classes a)"
    and "courses pd = a_courses a"
    and "teachers pd = sorted_list_of_set (a_teachers a)"
    and "curriculum pd = a_curriculum a"
    by (rule a)+
  show "finite (a_classes a)" and "finite (a_teachers a)" using inv by simp_all
  show "\<forall>co ci. a_courses a co = Some ci \<longrightarrow>
       (\<forall>t \<in> set (lecturers ci @ assistants ci). strip t \<noteq> [] \<and> t \<in> a_teachers a)"
    using inv by blast
  show "\<forall>c \<in> a_classes a. a_curriculum a c \<noteq> None \<and> a_curriculum a c \<noteq> Some []"
    using inv by blast
qed

subsection \<open>The preprocessed data\<close>



lemma preprocessed_teachers:
  assumes "preprocessed g = Some pd"
  shows "set (teachers pd) = (\<Union>subj \<in> set (subjects_data g). set (subject_teachers subj))"
proof -
  note st = preprocessed_state [OF assms]
  from steps_teachers [OF st(1)] st(4,7) show ?thesis by (simp add: acc0_def)
qed



lemma preprocessed_listed:
  assumes "preprocessed g = Some pd" "t \<in> set (listed_teachers pd co)"
  shows "strip t \<noteq> [] \<and> t \<in> set (teachers pd)"
proof -
  note st = preprocessed_state [OF assms(1)]
  let ?a = "the (steps acc0 (subjects_data g))"
  show ?thesis
  proof (cases "courses pd co")
    case None
    with assms(2) show ?thesis by (simp add: listed_teachers_def)
  next
    case (Some ci)
    with assms(2) have "t \<in> set (lecturers ci @ assistants ci)"
      by (simp add: listed_teachers_def)
    moreover from Some have "a_courses ?a co = Some ci" by (simp add: st(3))
    ultimately have "strip t \<noteq> [] \<and> t \<in> a_teachers ?a" using st(8) by blast
    then show ?thesis by (simp add: st(4,7))
  qed
qed


lemma key_teacher:
  assumes "preprocessed g = Some pd" "k \<in> set (assignments pd)"
  shows "k_teacher k = non_assigne \<or> k_teacher k \<in> set (teachers pd)"
proof -
  from assms(2) have "k_teacher k \<in> set (teachers_for_course pd (k_course k))"
    by (simp add: in_assignments usable_teachers_def)
  then show ?thesis
    using preprocessed_listed [OF assms(1), of "k_teacher k" "k_course k"]
    by (auto simp: teachers_for_course_def split: if_splits)
qed

lemma teacher_constraint_keys:
  assumes "con \<in> set (teacher_constraints pd ks)" "k \<in> set (c_keys con)"
  shows "k_teacher k \<in> set (teachers pd)"
  using assms
  by (auto simp: teacher_constraints_def set_slot_constraints group_def Let_def split: if_splits)

lemma no_key_of_teacher:
  assumes "preprocessed g = Some pd" "t \<noteq> non_assigne" "t \<notin> set (teachers pd)"
  shows "filter (\<lambda>k. k_teacher k = t \<and> Q k) (assignments pd) = []"
  unfolding filter_empty_conv
proof (intro ballI)
  fix k
  assume "k \<in> set (assignments pd)"
  from key_teacher [OF assms(1) this] assms(2,3)
  show "\<not> (k_teacher k = t \<and> Q k)" by metis
qed








subsection \<open>The teachers of the variables and of the constraints\<close>

text \<open>
  Claim C3, amended. In a solution returned with the status \<^verbatim>\<open>OPTIMAL\<close> or
  \<^verbatim>\<open>FEASIBLE\<close>, at most one decision variable is true for every class and slot and for
  every room and slot. The list \<^verbatim>\<open>teachers\<close> holds the names that the subjects which are
  not skipped give as lecturers and assistants, and the teacher of every variable is in it
  or is the placeholder. For every slot and every teacher but the placeholder at most one
  variable is true, and for the placeholder too when a subject gives its name as a
  lecturer or an assistant; when none does, no teacher constraint has a variable of the
  placeholder. None of the variables of a group needs to be true.
\<close>

theorem at_most_one_per_slot:
  assumes "preprocessed g = Some pd" "solution (build_model pd) r"
  shows "length (filter (\<lambda>k. k_class k = c \<and> k_day k = d \<and> k_period k = p \<and> r_value r k)
           (assignments pd)) \<le> 1 \<and>
         length (filter (\<lambda>k. k_room k = rm \<and> k_day k = d \<and> k_period k = p \<and> r_value r k)
           (assignments pd)) \<le> 1 \<and>
         set (teachers pd) = (\<Union>subj \<in> set (subjects_data g). set (subject_teachers subj)) \<and>
         (\<forall>k \<in> set (assignments pd). k_teacher k = non_assigne \<or> k_teacher k \<in> set (teachers pd)) \<and>
         (t \<noteq> non_assigne \<or> non_assigne \<in> set (teachers pd) \<longrightarrow>
            length (filter (\<lambda>k. k_teacher k = t \<and> k_day k = d \<and> k_period k = p \<and> r_value r k)
              (assignments pd)) \<le> 1) \<and>
         (non_assigne \<notin> set (teachers pd) \<longrightarrow>
            (\<forall>con \<in> set (teacher_constraints pd (assignments pd)).
               \<forall>k \<in> set (c_keys con). k_teacher k \<noteq> non_assigne))"
proof -
  note sat = solutionD [OF assms(2)]
  have 1: "length (filter (\<lambda>k. k_class k = c \<and> k_day k = d \<and> k_period k = p \<and> r_value r k)
           (assignments pd)) \<le> 1"
    using sat_class_slot [OF sat, of c d p] by (simp add: conj_assoc)
  have 2: "length (filter (\<lambda>k. k_room k = rm \<and> k_day k = d \<and> k_period k = p \<and> r_value r k)
           (assignments pd)) \<le> 1"
    using sat_room_slot [OF sat, of rm d p] by (simp add: conj_assoc)
  note 3 = preprocessed_teachers [OF assms(1)]
  have 4: "\<forall>k \<in> set (assignments pd). k_teacher k = non_assigne \<or> k_teacher k \<in> set (teachers pd)"
    using key_teacher [OF assms(1)] by blast
  have 5: "length (filter (\<lambda>k. k_teacher k = t \<and> k_day k = d \<and> k_period k = p \<and> r_value r k)
              (assignments pd)) \<le> 1"
    if h: "t \<noteq> non_assigne \<or> non_assigne \<in> set (teachers pd)"
  proof (cases "t \<in> set (teachers pd)")
    case True
    from sat_teacher_slot [OF sat True, of d p] show ?thesis by (simp add: conj_assoc)
  next
    case False
    with h have "t \<noteq> non_assigne" by blast
    from no_key_of_teacher [OF assms(1) this False] show ?thesis by simp
  qed
  have 6: "\<forall>con \<in> set (teacher_constraints pd (assignments pd)).
               \<forall>k \<in> set (c_keys con). k_teacher k \<noteq> non_assigne"
    if "non_assigne \<notin> set (teachers pd)"
    using teacher_constraint_keys [of _ pd "assignments pd"] that by metis
  from 1 2 3 4 5 6 show ?thesis by blast
qed

theorem at_most_one_per_slot_witness:
  "preprocessed week = Some week_pd \<and>
   solution (build_model week_pd) week_response \<and>
   ''Ada'' \<in> set (teachers week_pd) \<and> ''Ada'' \<noteq> non_assigne \<and>
   length (filter (\<lambda>k. k_class k = ''L1_s1'' \<and> k_day k = ''Mardi'' \<and> k_period k = ''10:05-12:55'' \<and>
     r_value week_response k) (assignments week_pd)) \<le> 1 \<and>
   length (filter (\<lambda>k. k_room k = ''S1'' \<and> k_day k = ''Mardi'' \<and> k_period k = ''10:05-12:55'' \<and>
     r_value week_response k) (assignments week_pd)) \<le> 1 \<and>
   length (filter (\<lambda>k. k_teacher k = ''Ada'' \<and> k_day k = ''Mardi'' \<and> k_period k = ''10:05-12:55'' \<and>
     r_value week_response k) (assignments week_pd)) \<le> 1 \<and>
   filter (\<lambda>k. k_class k = ''L1_s1'' \<and> k_day k = ''Lundi'' \<and> k_period k = ''07:00-09:55'' \<and>
     r_value week_response k) (assignments week_pd) = []"
proof -
  have p: "preprocessed week = Some week_pd"
    unfolding week_pd_def by (rule preprocessed_Some) code_simp
  have a: "solution (build_model week_pd) week_response" by code_simp
  have b: "''Ada'' \<in> set (teachers week_pd)" by code_simp
  have n: "''Ada'' \<noteq> non_assigne" by code_simp
  have c: "filter (\<lambda>k. k_class k = ''L1_s1'' \<and> k_day k = ''Lundi'' \<and> k_period k = ''07:00-09:55'' \<and>
     r_value week_response k) (assignments week_pd) = []" by code_simp
  from at_most_one_per_slot [OF p a, of "''L1_s1''" "''Mardi''" "''10:05-12:55''" "''S1''" "''Ada''"]
    p a b n c show ?thesis by blast
qed

theorem at_most_one_per_slot_counterexample:
  "non_assigne \<notin> set (teachers mixed_pd) \<and>
   solution (build_model mixed_pd) mixed_response \<and>
   x2 \<in> set (assignments mixed_pd) \<and> x3 \<in> set (assignments mixed_pd) \<and>
   r_value mixed_response x2 \<and> r_value mixed_response x3 \<and> x2 \<noteq> x3 \<and>
   k_teacher x2 = k_teacher x3 \<and> k_day x2 = k_day x3 \<and> k_period x2 = k_period x3"
  by code_simp

text \<open>
  Claim C4, amended. A course of a class's curriculum that lists no teacher has, when there
  is a room, a day and a period, exactly one true variable in every returned solution, and
  all its variables have the placeholder teacher. The placeholder is under the constraint
  of one session for each teacher and slot only when a subject gives the placeholder's name
  as a lecturer or an assistant, which puts it into the list \<^verbatim>\<open>teachers\<close>; when none
  does, no teacher constraint has a variable of the placeholder, and two sessions of the
  placeholder in one slot are, like any two sessions, for different classes and in
  different rooms.
\<close>

theorem unstaffed_course_placed_once:
  assumes "preprocessed g = Some pd" "solution (build_model pd) r"
    "c \<in> set (classes pd)" "co \<in> set (curriculum_of pd c)" "listed_teachers pd co = []"
    "rooms pd \<noteq> []" "days pd \<noteq> []" "periods pd \<noteq> []"
  shows "(\<exists>!k. k \<in> set (assignments pd) \<and> k_class k = c \<and> k_course k = co \<and> r_value r k) \<and>
         (\<forall>k \<in> set (assignments pd). k_course k = co \<longrightarrow> k_teacher k = non_assigne) \<and>
         (\<forall>k \<in> set (assignments pd). \<forall>k' \<in> set (assignments pd).
            r_value r k \<and> r_value r k' \<and> k \<noteq> k' \<and>
            k_teacher k = non_assigne \<and> k_teacher k' = non_assigne \<and>
            k_day k = k_day k' \<and> k_period k = k_period k' \<longrightarrow>
            k_class k \<noteq> k_class k' \<and> k_room k \<noteq> k_room k') \<and>
         (non_assigne \<in> set (teachers pd) \<longleftrightarrow>
            (\<exists>subj \<in> set (subjects_data g). non_assigne \<in> set (subject_teachers subj))) \<and>
         (non_assigne \<in> set (teachers pd) \<longrightarrow>
            length (filter (\<lambda>k. k_teacher k = non_assigne \<and> k_day k = d \<and> k_period k = p \<and>
              r_value r k) (assignments pd)) \<le> 1) \<and>
         (non_assigne \<notin> set (teachers pd) \<longrightarrow>
            (\<forall>con \<in> set (teacher_constraints pd (assignments pd)).
               \<forall>k \<in> set (c_keys con). k_teacher k \<noteq> non_assigne))"
proof -
  note sat = solutionD [OF assms(2)]
  let ?sel = "\<lambda>k. k_class k = c \<and> k_course k = co"
  have us: "usable_teachers pd co = [non_assigne]" by (rule usable_unlisted [OF assms(5)])
  then have "usable_teachers pd co \<noteq> []" by simp
  from has_variable [OF assms(3,4) this assms(6-8)]
  have ne: "filter ?sel (assignments pd) \<noteq> []" by (auto simp: filter_empty_conv)
  have "length (filter (r_value r) (filter ?sel (assignments pd))) = 1"
    by (rule sat_course [OF sat assms(3,4) ne])
  then have "length (filter (\<lambda>k. ?sel k \<and> r_value r k) (assignments pd)) = 1"
    by (simp add: conj_commute)
  from filter_exactly_one [OF distinct_assignments this]
  have one: "\<exists>!k. k \<in> set (assignments pd) \<and> k_class k = c \<and> k_course k = co \<and> r_value r k"
    by (simp add: conj_assoc)
  have two: "\<forall>k \<in> set (assignments pd). k_course k = co \<longrightarrow> k_teacher k = non_assigne"
    using us by (auto simp: in_assignments)
  have three: "k_class k \<noteq> k_class k' \<and> k_room k \<noteq> k_room k'"
    if "k \<in> set (assignments pd)" "k' \<in> set (assignments pd)" "r_value r k" "r_value r k'"
      "k \<noteq> k'" "k_day k = k_day k'" "k_period k = k_period k'" for k k'
    using no_two_in_class_slot [OF sat that(1,2,3,4) _ that(6,7)]
      no_two_in_room_slot [OF sat that(1,2,3,4) _ that(6,7)] that(5) by blast
  have four: "non_assigne \<in> set (teachers pd) \<longleftrightarrow>
            (\<exists>subj \<in> set (subjects_data g). non_assigne \<in> set (subject_teachers subj))"
    by (simp add: preprocessed_teachers [OF assms(1)])
  have five: "length (filter (\<lambda>k. k_teacher k = non_assigne \<and> k_day k = d \<and> k_period k = p \<and>
              r_value r k) (assignments pd)) \<le> 1" if "non_assigne \<in> set (teachers pd)"
    using sat_teacher_slot [OF sat that, of d p] by (simp add: conj_assoc)
  have six: "\<forall>con \<in> set (teacher_constraints pd (assignments pd)).
               \<forall>k \<in> set (c_keys con). k_teacher k \<noteq> non_assigne"
    if "non_assigne \<notin> set (teachers pd)"
    using teacher_constraint_keys [of _ pd "assignments pd"] that by metis
  from one two three four five six show ?thesis by blast
qed

theorem unstaffed_course_placed_once_witness:
  "preprocessed named = Some named_pd \<and>
   solution (build_model named_pd) named_response \<and>
   ''L2_s1'' \<in> set (classes named_pd) \<and>
   ''INF211'' \<in> set (curriculum_of named_pd ''L2_s1'') \<and>
   listed_teachers named_pd ''INF211'' = [] \<and>
   rooms named_pd \<noteq> [] \<and> days named_pd \<noteq> [] \<and> periods named_pd \<noteq> [] \<and>
   (\<exists>!k. k \<in> set (assignments named_pd) \<and> k_class k = ''L2_s1'' \<and> k_course k = ''INF211'' \<and>
          r_value named_response k) \<and>
   non_assigne \<in> set (teachers named_pd) \<and>
   length (filter (\<lambda>k. k_teacher k = non_assigne \<and> k_day k = ''Lundi'' \<and>
     k_period k = ''07:00-09:55'' \<and> r_value named_response k) (assignments named_pd)) \<le> 1"
proof -
  have p: "preprocessed named = Some named_pd"
    unfolding named_pd_def by (rule preprocessed_Some) code_simp
  have a: "solution (build_model named_pd) named_response" by code_simp
  have b: "''L2_s1'' \<in> set (classes named_pd)" by code_simp
  have c: "''INF211'' \<in> set (curriculum_of named_pd ''L2_s1'')" by code_simp
  have d: "listed_teachers named_pd ''INF211'' = []" by code_simp
  have e: "rooms named_pd \<noteq> []" by code_simp
  have f: "days named_pd \<noteq> []" by code_simp
  have g: "periods named_pd \<noteq> []" by code_simp
  have h: "non_assigne \<in> set (teachers named_pd)" by code_simp
  from unstaffed_course_placed_once [OF p a b c d e f g, of "''Lundi''" "''07:00-09:55''"]
    p a b c d e f g h show ?thesis by blast
qed

theorem placeholder_teacher_counterexample:
  "teachers unstaffed_pd = [] \<and>
   teacher_constraints unstaffed_pd (assignments unstaffed_pd) = [] \<and>
   solution (build_model unstaffed_pd) unstaffed_response \<and>
   r_value unstaffed_response u1 \<and> r_value unstaffed_response u2 \<and> u1 \<noteq> u2 \<and>
   k_teacher u1 = non_assigne \<and> k_teacher u2 = non_assigne \<and>
   k_day u1 = k_day u2 \<and> k_period u1 = k_period u2"
  by code_simp

subsection \<open>More courses than slots\<close>









end
